theory Spec2Isabelle
  imports Main
begin

section \<open>Values exchanged between the components\<close>

text \<open>
  Signing secrets and points in time. One clock, counted in seconds, serves both the
  token library and the session records.
\<close>

type_synonym secret = string
type_synonym timestamp = nat

text \<open>
  The value of a document's \<open>_id\<close> or of a token's \<open>userId\<close> claim. The database
  driver gives every document an ObjectId; a claim holds whatever the signer of the token
  wrote there, which may be a value that does not cast to an ObjectId.
\<close>

datatype id_value = ObjectId nat | NotObjectId string

fun isObjectId :: "id_value \<Rightarrow> bool" where
  "isObjectId (ObjectId n) = True"
| "isObjectId (NotObjectId s) = False"

text \<open>A JavaScript exception value: the constructor's name and the message.\<close>

datatype js_error = JsError (error_name: string) (error_message: string)

text \<open>
  The payload the controllers sign (\<open>{ userId, email, role }\<close>) and the claims found in
  a token, which add the issue time and the expiry the library embeds.
\<close>

record token_payload =
  userId :: id_value
  claimEmail :: string
  claimRole :: string

record claims = token_payload +
  iat :: timestamp
  exp :: timestamp

text \<open>
  Token strings, seen through their structure. A string that parses as a signed token is
  \<open>Jwt key c\<close>: the claims \<open>c\<close> and the secret \<open>key\<close> its signature was computed with.
  Every other string (the empty one included) is \<open>Opaque s\<close>. Signatures are ideal: a
  signature checks against a secret exactly when it was made with that secret.
\<close>

datatype token = Jwt secret claims | Opaque string

text \<open>JavaScript truthiness of an optional string value: absent and empty are falsy.\<close>

fun truthy_token :: "token option \<Rightarrow> bool" where
  "truthy_token None = False"
| "truthy_token (Some (Opaque s)) = (s \<noteq> [])"
| "truthy_token (Some (Jwt k c)) = True"

fun truthy_string :: "string option \<Rightarrow> bool" where
  "truthy_string None = False"
| "truthy_string (Some s) = (s \<noteq> [])"

subsection \<open>The signing library\<close>

text \<open>
  \<open>jwt.sign(payload, secret, { expiresIn })\<close> stamps the payload with the issue time and
  the expiry and signs it. \<open>jwt.verify\<close> checks the shape, then the signature, then the
  expiry, and raises a different exception for each. \<open>jwt.decode\<close> reads the claims of a
  well-formed token without checking anything, and gives null for anything else.
\<close>

definition jwt_sign :: "token_payload \<Rightarrow> secret \<Rightarrow> nat \<Rightarrow> timestamp \<Rightarrow> token" where
  "jwt_sign payload key expiresIn now =
     Jwt key \<lparr>userId = userId payload, claimEmail = claimEmail payload,
              claimRole = claimRole payload, iat = now, exp = now + expiresIn\<rparr>"

fun jwt_verify :: "token \<Rightarrow> secret \<Rightarrow> timestamp \<Rightarrow> js_error + claims" where
  "jwt_verify (Opaque s) key now = Inl (JsError ''JsonWebTokenError'' ''jwt malformed'')"
| "jwt_verify (Jwt k c) key now =
     (if k \<noteq> key then Inl (JsError ''JsonWebTokenError'' ''invalid signature'')
      else if exp c \<le> now then Inl (JsError ''TokenExpiredError'' ''jwt expired'')
      else Inr c)"

fun jwt_decode :: "token \<Rightarrow> claims option" where
  "jwt_decode (Opaque s) = None"
| "jwt_decode (Jwt k c) = Some c"

section \<open>Token service\<close>

text \<open>The process environment the service reads its secrets and lifetimes from.\<close>

record env =
  JWT_SECRET :: secret
  JWT_REFRESH_SECRET :: secret
  JWT_EXPIRES_IN :: "nat option"
  JWT_REFRESH_EXPIRES_IN :: "nat option"

text \<open>Lifetimes in seconds; the defaults are \<open>'30m'\<close> and \<open>'7d'\<close>.\<close>

definition accessExpiresIn :: "env \<Rightarrow> nat" where
  "accessExpiresIn E = (case JWT_EXPIRES_IN E of Some n \<Rightarrow> n | None \<Rightarrow> 30 * 60)"

definition refreshExpiresIn :: "env \<Rightarrow> nat" where
  "refreshExpiresIn E =
     (case JWT_REFRESH_EXPIRES_IN E of Some n \<Rightarrow> n | None \<Rightarrow> 7 * 24 * 60 * 60)"

definition generateAccessToken :: "env \<Rightarrow> timestamp \<Rightarrow> token_payload \<Rightarrow> token" where
  "generateAccessToken E now payload = jwt_sign payload (JWT_SECRET E) (accessExpiresIn E) now"

definition generateRefreshToken :: "env \<Rightarrow> timestamp \<Rightarrow> token_payload \<Rightarrow> token" where
  "generateRefreshToken E now payload =
     jwt_sign payload (JWT_REFRESH_SECRET E) (refreshExpiresIn E) now"

definition generateTokens :: "env \<Rightarrow> timestamp \<Rightarrow> token_payload \<Rightarrow> token \<times> token" where
  "generateTokens E now payload =
     (let accessToken = generateAccessToken E now payload;
          refreshToken = generateRefreshToken E now payload
      in (accessToken, refreshToken))"

text \<open>Both verifiers catch whatever the library raises and raise one fixed error instead.\<close>

definition verifyAccessToken :: "env \<Rightarrow> timestamp \<Rightarrow> token \<Rightarrow> js_error + claims" where
  "verifyAccessToken E now t =
     (case jwt_verify t (JWT_SECRET E) now of
        Inr decoded \<Rightarrow> Inr decoded
      | Inl error \<Rightarrow> Inl (JsError ''Error'' ''Invalid access token''))"

definition verifyRefreshToken :: "env \<Rightarrow> timestamp \<Rightarrow> token \<Rightarrow> js_error + claims" where
  "verifyRefreshToken E now t =
     (case jwt_verify t (JWT_REFRESH_SECRET E) now of
        Inr decoded \<Rightarrow> Inr decoded
      | Inl error \<Rightarrow> Inl (JsError ''Error'' ''Invalid refresh token''))"

text \<open>
  An Authorization header value: the text \<open>'Bearer '\<close> followed by a string, or any text
  that does not start so. \<open>substring(7)\<close> of the first is the string after the prefix.
\<close>

datatype auth_header = Bearer token | OtherText string

fun extractTokenFromHeader :: "auth_header option \<Rightarrow> token option" where
  "extractTokenFromHeader None = None"
| "extractTokenFromHeader (Some (OtherText s)) = None"
| "extractTokenFromHeader (Some (Bearer t)) = Some t"

definition getTokenPayload :: "token \<Rightarrow> claims option" where
  "getTokenPayload t = jwt_decode t"

section \<open>Responses and middleware outcomes\<close>

record user_view =
  viewId :: id_value
  viewFirstName :: string
  viewLastName :: string
  viewEmail :: string
  viewRole :: string
  viewPhone :: "string option"
  viewCompanyName :: "string option"
  viewIsEmailVerified :: bool
  viewCreatedAt :: timestamp

datatype body_data =
    NoData
  | Errors "string list"
  | Session user_view token token
  | AccessToken token

text \<open>\<open>res.status(code).json({ status, message, ... })\<close>\<close>

record response =
  code :: nat
  status :: string
  message :: string
  data :: body_data

definition reply :: "nat \<Rightarrow> string \<Rightarrow> string \<Rightarrow> response" where
  "reply c s m = \<lparr>code = c, status = s, message = m, data = NoData\<rparr>"

text \<open>The identity a request carries once authenticated (\<open>req.user\<close>).\<close>

record identity =
  identUserId :: id_value
  identEmail :: string
  identRole :: string
  identFirstName :: string
  identLastName :: string

text \<open>
  A middleware either answers the request itself or calls \<open>next()\<close>, handing on the
  identity it found (if any).
\<close>

datatype outcome = Respond response | Next "identity option"

section \<open>Role middleware\<close>

text \<open>\<open>allowedRoles\<close> is one role or an array of roles.\<close>

datatype allowed_roles = OneRole string | RoleArray "string list"

fun roles_of :: "allowed_roles \<Rightarrow> string list" where
  "roles_of (RoleArray rs) = rs"
| "roles_of (OneRole r) = [r]"

definition requireRole :: "allowed_roles \<Rightarrow> identity option \<Rightarrow> outcome" where
  "requireRole allowedRoles user =
     (case user of
        None \<Rightarrow> Respond (reply 401 ''error'' ''Authentication required'')
      | Some u \<Rightarrow>
          (let roles = roles_of allowedRoles
           in if identRole u \<notin> set roles
              then Respond (reply 403 ''error'' ''Insufficient permissions'')
              else Next (Some u)))"

definition requireApplicant :: "identity option \<Rightarrow> outcome" where
  "requireApplicant = requireRole (OneRole ''applicant'')"

definition requireEmployer :: "identity option \<Rightarrow> outcome" where
  "requireEmployer = requireRole (OneRole ''employer'')"

definition requireAny :: "identity option \<Rightarrow> outcome" where
  "requireAny = requireRole (RoleArray [''applicant'', ''employer''])"

text \<open>
  The role check shipped beside the job-ownership check is a second form of the same
  factory: one test, and 403 for every request it does not pass.
\<close>

fun join :: "string \<Rightarrow> string list \<Rightarrow> string" where
  "join sep [] = []"
| "join sep [x] = x"
| "join sep (x # y # ys) = x @ sep @ join sep (y # ys)"

definition requireRole_jobs :: "allowed_roles \<Rightarrow> identity option \<Rightarrow> outcome" where
  "requireRole_jobs allowedRoles user =
     (let roles = roles_of allowedRoles
      in case user of
           Some u \<Rightarrow>
             if identRole u \<in> set roles then Next (Some u)
             else Respond (reply 403 ''error''
                    (''Forbidden: This action requires one of the following roles: '' @
                     join '', '' roles @ ''.''))
         | None \<Rightarrow>
             Respond (reply 403 ''error''
               (''Forbidden: This action requires one of the following roles: '' @
                join '', '' roles @ ''.'')))"

section \<open>User documents and their collection\<close>

text \<open>
  The user model's file is not part of the sources at hand; its documents are described
  here by the fields the controllers and middleware read and write.
\<close>

record session_record =
  token :: token
  expiresAt :: timestamp
  sessionCreatedAt :: timestamp

record user =
  uid :: id_value
  firstName :: string
  lastName :: string
  email :: string
  password :: string
  role :: string
  phone :: "string option"
  companyName :: "string option"
  isActive :: bool
  isEmailVerified :: bool
  createdAt :: timestamp
  refreshTokens :: "session_record list"

text \<open>
  The collection of user documents, in insertion order. Persistence is an in-memory
  collection. A lookup by identifier raises when the value does not cast to an ObjectId;
  the other faults the controllers' catch-all 500 answers react to (a lost connection,
  the hashing and the signing libraries) are not described.
\<close>

type_synonym collection = "user list"

definition findOneByEmail :: "collection \<Rightarrow> string \<Rightarrow> user option" where
  "findOneByEmail db e = find (\<lambda>u. email u = e) db"

text \<open>The stored document with a given identifier, if there is one.\<close>

definition findById :: "collection \<Rightarrow> id_value \<Rightarrow> user option" where
  "findById db i = find (\<lambda>u. uid u = i) db"

text \<open>
  \<open>User.findById(value)\<close>: the driver first casts the value to an ObjectId and raises a
  \<open>CastError\<close> when that fails; otherwise it resolves to the document found, or to null.
\<close>

fun User_findById :: "collection \<Rightarrow> id_value \<Rightarrow> js_error + user option" where
  "User_findById db (ObjectId n) = Inr (findById db (ObjectId n))"
| "User_findById db (NotObjectId s) = Inl (JsError ''CastError'' ''Cast to ObjectId failed'')"

text \<open>
  \<open>user.save()\<close>: the document with this identifier is replaced, a new document is
  appended.
\<close>

fun save :: "user \<Rightarrow> collection \<Rightarrow> collection" where
  "save u [] = [u]"
| "save u (v # vs) = (if uid v = uid u then u # vs else v # save u vs)"

text \<open>The identifier of a new document is an ObjectId no stored document has.\<close>

fun id_number :: "id_value \<Rightarrow> nat" where
  "id_number (ObjectId n) = n"
| "id_number (NotObjectId s) = 0"

definition newObjectId :: "collection \<Rightarrow> id_value" where
  "newObjectId db = ObjectId (Suc (foldr max (map (\<lambda>u. id_number (uid u)) db) 0))"

text \<open>The credential hasher: a one-way digest and its verification.\<close>

record hasher =
  hashPassword :: "string \<Rightarrow> string"
  verifyPassword :: "string \<Rightarrow> string \<Rightarrow> bool"

text \<open>
  Modelled from the spec: the user model's \<open>comparePassword\<close> method is missing from the
  sources. Section 4.1: \<open>verify(plaintext, digest) -> bool\<close>, run on every login against
  the stored digest.
\<close>

definition comparePassword :: "hasher \<Rightarrow> user \<Rightarrow> string \<Rightarrow> bool" where
  "comparePassword H u candidate = verifyPassword H candidate (password u)"

text \<open>
  Modelled from the spec: the user model's \<open>addRefreshToken\<close> method is missing from the
  sources. Section 4.3, \<open>add\<close>: appends a new Session Record; section 3: \<open>expiresAt\<close>
  mirrors the token's embedded expiry, and insertion order is preserved.
\<close>

definition addRefreshToken :: "timestamp \<Rightarrow> token \<Rightarrow> user \<Rightarrow> user" where
  "addRefreshToken now t u =
     u\<lparr>refreshTokens := refreshTokens u @
         [\<lparr>token = t,
           expiresAt = (case jwt_decode t of Some c \<Rightarrow> exp c | None \<Rightarrow> now),
           sessionCreatedAt = now\<rparr>]\<rparr>"

text \<open>
  Modelled from the spec: the user model's \<open>removeRefreshToken\<close> method is missing from
  the sources. Section 4.3, \<open>remove\<close>: deletes the record whose token exactly matches;
  no-op (not an error) if absent.
\<close>

definition removeRefreshToken :: "token \<Rightarrow> user \<Rightarrow> user" where
  "removeRefreshToken t u = u\<lparr>refreshTokens := filter (\<lambda>s. token s \<noteq> t) (refreshTokens u)\<rparr>"

text \<open>
  Modelled from the spec: the user model's \<open>cleanExpiredTokens\<close> method is missing from
  the sources. Section 4.3, \<open>pruneExpired\<close>: removes every record whose \<open>expiresAt\<close> has
  passed.
\<close>

definition cleanExpiredTokens :: "timestamp \<Rightarrow> user \<Rightarrow> user" where
  "cleanExpiredTokens now u = u\<lparr>refreshTokens := filter (\<lambda>s. now < expiresAt s) (refreshTokens u)\<rparr>"

text \<open>
  Modelled from the spec: the user schema (defaults, and the hashing of the password
  before the first save) is missing from the sources. Section 4.4, \<open>register\<close>: creates
  the User Identity and hashes the password via 4.1; section 3: a new identity is active
  and owns no Session Record yet.
\<close>

definition newUser ::
  "hasher \<Rightarrow> timestamp \<Rightarrow> id_value \<Rightarrow> string \<Rightarrow> string \<Rightarrow> string \<Rightarrow> string \<Rightarrow> string \<Rightarrow>
   string option \<Rightarrow> string option \<Rightarrow> user" where
  "newUser H now i fn ln em pw r ph cn =
     \<lparr>uid = i, firstName = fn, lastName = ln, email = em, password = hashPassword H pw,
      role = r, phone = ph, companyName = cn, isActive = True, isEmailVerified = False,
      createdAt = now, refreshTokens = []\<rparr>"

text \<open>The user object the register and login answers carry.\<close>

definition view :: "user \<Rightarrow> user_view" where
  "view u =
     \<lparr>viewId = uid u, viewFirstName = firstName u, viewLastName = lastName u,
      viewEmail = email u, viewRole = role u, viewPhone = phone u,
      viewCompanyName = companyName u, viewIsEmailVerified = isEmailVerified u,
      viewCreatedAt = createdAt u\<rparr>"

section \<open>Auth controller\<close>

text \<open>
  A request to register, after the validation layer: the errors it found and the body
  fields. \<open>role\<close>, \<open>phone\<close> and \<open>companyName\<close> are optional.
\<close>

record register_request =
  regErrors :: "string list"
  regFirstName :: string
  regLastName :: string
  regEmail :: string
  regPassword :: string
  regRole :: "string option"
  regPhone :: "string option"
  regCompanyName :: "string option"

definition register ::
  "env \<Rightarrow> hasher \<Rightarrow> timestamp \<Rightarrow> collection \<Rightarrow> register_request \<Rightarrow> response \<times> collection" where
  "register E H now db req =
     (if regErrors req \<noteq> []
      then (\<lparr>code = 400, status = ''error'', message = ''Validation failed'',
             data = Errors (regErrors req)\<rparr>, db)
      else
        case findOneByEmail db (regEmail req) of
          Some existingUser \<Rightarrow>
            (reply 400 ''error'' ''User with this email already exists'', db)
        | None \<Rightarrow>
            (let user0 = newUser H now (newObjectId db)
                   (regFirstName req) (regLastName req) (regEmail req) (regPassword req)
                   (if truthy_string (regRole req) then the (regRole req) else ''applicant'')
                   (if truthy_string (regPhone req) then regPhone req else None)
                   (if regRole req = Some ''employer'' \<and> truthy_string (regCompanyName req)
                    then regCompanyName req else None);
                 db1 = save user0 db;
                 tokenPayload = \<lparr>userId = uid user0, claimEmail = email user0,
                                 claimRole = role user0\<rparr>;
                 (accessToken, refreshToken) = generateTokens E now tokenPayload;
                 user1 = addRefreshToken now refreshToken user0;
                 db2 = save user1 db1
             in (\<lparr>code = 201, status = ''success'',
                  message = ''User registered successfully'',
                  data = Session (view user1) accessToken refreshToken\<rparr>, db2)))"

record login_request =
  loginErrors :: "string list"
  loginEmail :: string
  loginPassword :: string

definition login ::
  "env \<Rightarrow> hasher \<Rightarrow> timestamp \<Rightarrow> collection \<Rightarrow> login_request \<Rightarrow> response \<times> collection" where
  "login E H now db req =
     (if loginErrors req \<noteq> []
      then (\<lparr>code = 400, status = ''error'', message = ''Validation failed'',
             data = Errors (loginErrors req)\<rparr>, db)
      else
        case findOneByEmail db (loginEmail req) of
          None \<Rightarrow> (reply 401 ''error'' ''Invalid email or password'', db)
        | Some user0 \<Rightarrow>
            if \<not> isActive user0
            then (reply 401 ''error'' ''Account is deactivated. Please contact support.'', db)
            else if \<not> comparePassword H user0 (loginPassword req)
            then (reply 401 ''error'' ''Invalid email or password'', db)
            else
              (let user1 = cleanExpiredTokens now user0;
                   db1 = save user1 db;
                   tokenPayload = \<lparr>userId = uid user1, claimEmail = email user1,
                                   claimRole = role user1\<rparr>;
                   (accessToken, refreshToken) = generateTokens E now tokenPayload;
                   user2 = addRefreshToken now refreshToken user1;
                   db2 = save user2 db1
               in (\<lparr>code = 200, status = ''success'', message = ''Login successful'',
                    data = Session (view user2) accessToken refreshToken\<rparr>, db2)))"

text \<open>The body of a refresh or logout request: its \<open>refreshToken\<close> field, if any.\<close>

definition refreshToken_try ::
  "env \<Rightarrow> timestamp \<Rightarrow> collection \<Rightarrow> token option \<Rightarrow> js_error + response \<times> collection" where
  "refreshToken_try E now db body =
     (if \<not> truthy_token body
      then Inr (reply 401 ''error'' ''Refresh token is required'', db)
      else
        case verifyRefreshToken E now (the body) of
          Inl error \<Rightarrow> Inr (reply 401 ''error'' ''Invalid or expired refresh token'', db)
        | Inr decoded \<Rightarrow>
            (case User_findById db (userId decoded) of
               Inl error \<Rightarrow> Inl error
             | Inr None \<Rightarrow> Inr (reply 401 ''error'' ''Invalid refresh token'', db)
             | Inr (Some user0) \<Rightarrow>
                 if \<not> list_ex (\<lambda>t. token t = the body) (refreshTokens user0)
                 then Inr (reply 401 ''error'' ''Invalid refresh token'', db)
                 else
                   (let tokenPayload = \<lparr>userId = uid user0, claimEmail = email user0,
                                         claimRole = role user0\<rparr>;
                        newAccessToken = generateAccessToken E now tokenPayload
                    in Inr (\<lparr>code = 200, status = ''success'',
                             message = ''Token refreshed successfully'',
                             data = AccessToken newAccessToken\<rparr>, db))))"

text \<open>The handler's \<open>catch\<close>: whatever the body raises is answered 500.\<close>

definition refreshToken ::
  "env \<Rightarrow> timestamp \<Rightarrow> collection \<Rightarrow> token option \<Rightarrow> response \<times> collection" where
  "refreshToken E now db body =
     (case refreshToken_try E now db body of
        Inr out \<Rightarrow> out
      | Inl error \<Rightarrow>
          (reply 500 ''error'' ''Internal server error during token refresh'', db))"

definition logout_try :: "collection \<Rightarrow> token option \<Rightarrow> js_error + response \<times> collection" where
  "logout_try db body =
     (if \<not> truthy_token body
      then Inr (reply 400 ''error'' ''Refresh token is required'', db)
      else
        case getTokenPayload (the body) of
          None \<Rightarrow> Inr (reply 400 ''error'' ''Invalid refresh token'', db)
        | Some payload \<Rightarrow>
            (case User_findById db (userId payload) of
               Inl error \<Rightarrow> Inl error
             | Inr (Some user0) \<Rightarrow>
                 Inr (reply 200 ''success'' ''Logout successful'',
                      save (removeRefreshToken (the body) user0) db)
             | Inr None \<Rightarrow> Inr (reply 200 ''success'' ''Logout successful'', db)))"

definition logout :: "collection \<Rightarrow> token option \<Rightarrow> response \<times> collection" where
  "logout db body =
     (case logout_try db body of
        Inr out \<Rightarrow> out
      | Inl error \<Rightarrow> (reply 500 ''error'' ''Internal server error during logout'', db))"

text \<open>
  \<open>logoutAll\<close> reads \<open>req.user.userId\<close>; without an attached identity that read raises
  a \<open>TypeError\<close>.
\<close>

definition logoutAll_try ::
  "collection \<Rightarrow> identity option \<Rightarrow> js_error + response \<times> collection" where
  "logoutAll_try db requser =
     (case requser of
        None \<Rightarrow> Inl (JsError ''TypeError'' ''Cannot read properties of undefined'')
      | Some ident \<Rightarrow>
          (case User_findById db (identUserId ident) of
             Inl error \<Rightarrow> Inl error
           | Inr (Some user0) \<Rightarrow>
               Inr (reply 200 ''success'' ''Logged out from all devices successfully'',
                    save (user0\<lparr>refreshTokens := []\<rparr>) db)
           | Inr None \<Rightarrow>
               Inr (reply 200 ''success'' ''Logged out from all devices successfully'', db)))"

definition logoutAll :: "collection \<Rightarrow> identity option \<Rightarrow> response \<times> collection" where
  "logoutAll db requser =
     (case logoutAll_try db requser of
        Inr out \<Rightarrow> out
      | Inl error \<Rightarrow> (reply 500 ''error'' ''Internal server error during logout'', db))"

section \<open>Authentication middleware\<close>

text \<open>
  The body of the \<open>try\<close> block: it answers, calls \<open>next()\<close>, or raises what
  \<open>verifyAccessToken\<close> or the lookup of the user raises.
\<close>

definition authenticateToken_try ::
  "env \<Rightarrow> timestamp \<Rightarrow> collection \<Rightarrow> auth_header option \<Rightarrow> js_error + outcome" where
  "authenticateToken_try E now db authHeader =
     (let tok = extractTokenFromHeader authHeader
      in if \<not> truthy_token tok
         then Inr (Respond (reply 401 ''error'' ''Access token is required''))
         else
           case verifyAccessToken E now (the tok) of
             Inl error \<Rightarrow> Inl error
           | Inr decoded \<Rightarrow>
               (case User_findById db (userId decoded) of
                  Inl error \<Rightarrow> Inl error
                | Inr None \<Rightarrow> Inr (Respond (reply 401 ''error'' ''User not found''))
                | Inr (Some user0) \<Rightarrow>
                    if \<not> isActive user0
                    then Inr (Respond (reply 401 ''error'' ''Account is deactivated''))
                    else Inr (Next (Some
                           \<lparr>identUserId = uid user0, identEmail = email user0,
                            identRole = role user0, identFirstName = firstName user0,
                            identLastName = lastName user0\<rparr>))))"

definition authenticateToken ::
  "env \<Rightarrow> timestamp \<Rightarrow> collection \<Rightarrow> auth_header option \<Rightarrow> outcome" where
  "authenticateToken E now db authHeader =
     (case authenticateToken_try E now db authHeader of
        Inr out \<Rightarrow> out
      | Inl error \<Rightarrow>
          if error_message error = ''Invalid access token''
          then Respond (reply 401 ''error'' ''Invalid or expired access token'')
          else Respond (reply 500 ''error'' ''Internal server error during authentication''))"

text \<open>
  A route guarded by the middleware, as \<open>router.post('/logout-all', authenticateToken,
  authController.logoutAll)\<close>: the handler runs only if the middleware calls \<open>next()\<close>.
\<close>

definition guarded ::
  "outcome \<Rightarrow> (identity option \<Rightarrow> response \<times> collection) \<Rightarrow> collection \<Rightarrow> response \<times> collection" where
  "guarded out handler db = (case out of Respond r \<Rightarrow> (r, db) | Next requser \<Rightarrow> handler requser)"

definition logoutAll_route ::
  "env \<Rightarrow> timestamp \<Rightarrow> collection \<Rightarrow> auth_header option \<Rightarrow> response \<times> collection" where
  "logoutAll_route E now db authHeader =
     guarded (authenticateToken E now db authHeader) (logoutAll db) db"

section \<open>A worked scenario\<close>

text \<open>
  Concrete values for the examples below: an environment with the default lifetimes, a
  hasher, and the users of scenario A of the specification. Alice registers at time 1000
  into an empty collection; Bob's account has been deactivated; Carol registers at time
  3000 without naming a role.
\<close>

definition env0 :: env where
  "env0 = \<lparr>JWT_SECRET = ''access-secret'', JWT_REFRESH_SECRET = ''refresh-secret'',
           JWT_EXPIRES_IN = None, JWT_REFRESH_EXPIRES_IN = None\<rparr>"

definition hasher0 :: hasher where
  "hasher0 = \<lparr>hashPassword = (\<lambda>pw. ''$'' @ pw),
              verifyPassword = (\<lambda>pw digest. digest = ''$'' @ pw)\<rparr>"

definition alice_payload :: token_payload where
  "alice_payload = \<lparr>userId = ObjectId 1, claimEmail = ''a@x.com'', claimRole = ''applicant''\<rparr>"

definition alice_claims :: claims where
  "alice_claims = \<lparr>userId = ObjectId 1, claimEmail = ''a@x.com'', claimRole = ''applicant'',
                   iat = 1000, exp = 605800\<rparr>"

definition alice_refresh :: token where
  "alice_refresh = Jwt ''refresh-secret'' alice_claims"

definition alice :: user where
  "alice = \<lparr>uid = ObjectId 1, firstName = ''Alice'', lastName = ''Archer'', email = ''a@x.com'',
            password = ''$Passw0rd'', role = ''applicant'', phone = None, companyName = None,
            isActive = True, isEmailVerified = False, createdAt = 1000,
            refreshTokens = [\<lparr>token = alice_refresh, expiresAt = 605800,
                              sessionCreatedAt = 1000\<rparr>]\<rparr>"

definition alice_request :: register_request where
  "alice_request = \<lparr>regErrors = [], regFirstName = ''Alice'', regLastName = ''Archer'',
     regEmail = ''a@x.com'', regPassword = ''Passw0rd'', regRole = Some ''applicant'',
     regPhone = None, regCompanyName = None\<rparr>"

definition bob :: user where
  "bob = \<lparr>uid = ObjectId 2, firstName = ''Bob'', lastName = ''Baker'', email = ''b@x.com'',
          password = ''$Secr3t'', role = ''employer'', phone = None,
          companyName = Some ''Baker Ltd'', isActive = False, isEmailVerified = False,
          createdAt = 1500, refreshTokens = []\<rparr>"

definition carol_request :: register_request where
  "carol_request = \<lparr>regErrors = [], regFirstName = ''Carol'', regLastName = ''Cole'',
     regEmail = ''c@x.com'', regPassword = ''S3cret!'', regRole = None,
     regPhone = None, regCompanyName = Some ''Cole Inc''\<rparr>"

definition carol_refresh :: token where
  "carol_refresh = Jwt ''refresh-secret''
     \<lparr>userId = ObjectId 2, claimEmail = ''c@x.com'', claimRole = ''applicant'', iat = 3000,
      exp = 607800\<rparr>"

definition carol_access :: token where
  "carol_access = Jwt ''access-secret''
     \<lparr>userId = ObjectId 2, claimEmail = ''c@x.com'', claimRole = ''applicant'', iat = 3000,
      exp = 4800\<rparr>"

definition carol :: user where
  "carol = \<lparr>uid = ObjectId 2, firstName = ''Carol'', lastName = ''Cole'', email = ''c@x.com'',
            password = ''$S3cret!'', role = ''applicant'', phone = None, companyName = None,
            isActive = True, isEmailVerified = False, createdAt = 3000,
            refreshTokens = [\<lparr>token = carol_refresh, expiresAt = 607800,
                              sessionCreatedAt = 3000\<rparr>]\<rparr>"

text \<open>
  Tokens for the examples: claims for Alice's identity expiring at 2800, signed once with
  a secret that is not the server's and once by the server, and a refresh token naming a
  user the collection does not hold.
\<close>

definition access_claims :: claims where
  "access_claims = \<lparr>userId = ObjectId 1, claimEmail = ''a@x.com'', claimRole = ''applicant'',
                    iat = 1000, exp = 2800\<rparr>"

definition forged_access :: token where
  "forged_access = Jwt ''guessed-secret'' access_claims"

definition stale_access :: token where
  "stale_access = Jwt ''access-secret'' access_claims"

definition unknown_claims :: claims where
  "unknown_claims = \<lparr>userId = ObjectId 7, claimEmail = ''z@x.com'', claimRole = ''employer'',
                     iat = 0, exp = 1\<rparr>"

definition unknown_refresh :: token where
  "unknown_refresh = Jwt ''guessed-secret'' unknown_claims"

text \<open>A well-formed token whose \<open>userId\<close> claim is not an ObjectId.\<close>

definition stray_claims :: claims where
  "stray_claims = \<lparr>userId = NotObjectId ''abc'', claimEmail = ''a@x.com'',
                   claimRole = ''applicant'', iat = 1000, exp = 605800\<rparr>"

definition stray_refresh :: token where
  "stray_refresh = Jwt ''guessed-secret'' stray_claims"

definition alice_identity :: identity where
  "alice_identity = \<lparr>identUserId = ObjectId 1, identEmail = ''a@x.com'', identRole = ''applicant'',
                      identFirstName = ''Alice'', identLastName = ''Archer''\<rparr>"

lemmas scenario_defs = env0_def hasher0_def alice_claims_def alice_refresh_def alice_def

section \<open>Facts about the collection and the session records\<close>

lemma findById_Some: "findById db i = Some u \<Longrightarrow> uid u = i \<and> u \<in> set db"
  by (auto simp: findById_def find_Some_iff)

lemma findById_save_same: "findById (save u db) (uid u) = Some u"
  by (induction db) (simp_all add: findById_def)

lemma save_found_uid: "find (\<lambda>v. uid v = uid u) db = Some u \<Longrightarrow> save u db = db"
  by (induction db) (auto split: if_splits)

lemma save_found: "findById db i = Some u \<Longrightarrow> save u db = db"
proof -
  assume a: "findById db i = Some u"
  then have "uid u = i" by (simp add: findById_Some)
  with a show ?thesis by (simp add: findById_def save_found_uid)
qed

lemma foldr_max_ge: "x \<in> set xs \<Longrightarrow> x \<le> foldr max xs (0::nat)"
  by (induction xs) auto

lemma newObjectId_fresh: "v \<in> set db \<Longrightarrow> uid v \<noteq> newObjectId db"
proof
  assume v: "v \<in> set db" and e: "uid v = newObjectId db"
  from v have "id_number (uid v) \<le> foldr max (map (\<lambda>u. id_number (uid u)) db) 0"
    using foldr_max_ge [of "id_number (uid v)" "map (\<lambda>u. id_number (uid u)) db"] by simp
  with e show False by (simp add: newObjectId_def)
qed

lemma isObjectId_newObjectId: "isObjectId (newObjectId db)"
  by (simp add: newObjectId_def)

lemma fresh_all: "list_all (\<lambda>v. uid v \<noteq> newObjectId db) db"
  using newObjectId_fresh by (fastforce simp: list_all_iff)

lemma findById_fresh: "findById db (newObjectId db) = None"
  using newObjectId_fresh [of _ db] by (fastforce simp: findById_def find_None_iff)

lemma User_findById_if:
  "User_findById db i =
     (if isObjectId i then Inr (findById db i)
      else Inl (JsError ''CastError'' ''Cast to ObjectId failed''))"
  by (cases i) simp_all

lemma findById_append_new:
  "findById db (uid u) = None \<Longrightarrow> findById (db @ [u]) (uid u) = Some u"
  by (induction db) (auto simp: findById_def split: if_splits)

lemma save_new: "list_all (\<lambda>v. uid v \<noteq> uid u) db \<Longrightarrow> save u db = db @ [u]"
  by (induction db) simp_all

lemma save_last:
  "list_all (\<lambda>v. uid v \<noteq> uid u) db \<Longrightarrow> uid u' = uid u \<Longrightarrow> save u' (db @ [u]) = db @ [u']"
  by (induction db) simp_all

lemma removeRefreshToken_idem:
  "removeRefreshToken t (removeRefreshToken t u) = removeRefreshToken t u"
  by (simp add: removeRefreshToken_def)

lemma uid_removeRefreshToken: "uid (removeRefreshToken t u) = uid u"
  by (simp add: removeRefreshToken_def)

lemma not_member_removeRefreshToken:
  "\<not> list_ex (\<lambda>s. token s = t) (refreshTokens (removeRefreshToken t u))"
  by (simp add: removeRefreshToken_def list_ex_iff)

lemma verifyRefreshToken_Inr:
  "verifyRefreshToken E now t = Inr d \<longleftrightarrow> t = Jwt (JWT_REFRESH_SECRET E) d \<and> now < exp d"
  by (cases t) (auto simp: verifyRefreshToken_def)

lemma verifyAccessToken_expired:
  "exp c \<le> now \<Longrightarrow>
   verifyAccessToken E now (Jwt k c) = Inl (JsError ''Error'' ''Invalid access token'')"
  by (simp add: verifyAccessToken_def)

section \<open>Logout and refresh\<close>

lemma refreshToken_frame: "snd (refreshToken E now db body) = db"
  by (simp add: refreshToken_def refreshToken_try_def User_findById_if Let_def
      split: sum.splits option.splits)

lemma refreshToken_unverified:
  "truthy_token body \<Longrightarrow> verifyRefreshToken E now (the body) = Inl e \<Longrightarrow>
   refreshToken E now db body = (reply 401 ''error'' ''Invalid or expired refresh token'', db)"
  by (simp add: refreshToken_def refreshToken_try_def)

lemma refreshToken_uncastable:
  "truthy_token body \<Longrightarrow> verifyRefreshToken E now (the body) = Inr d \<Longrightarrow>
   \<not> isObjectId (userId d) \<Longrightarrow>
   refreshToken E now db body =
     (reply 500 ''error'' ''Internal server error during token refresh'', db)"
  by (simp add: refreshToken_def refreshToken_try_def User_findById_if)

lemma refreshToken_castable:
  "truthy_token body \<Longrightarrow> verifyRefreshToken E now (the body) = Inr d \<Longrightarrow>
   isObjectId (userId d) \<Longrightarrow>
   refreshToken E now db body =
     (case findById db (userId d) of
        None \<Rightarrow> (reply 401 ''error'' ''Invalid refresh token'', db)
      | Some u \<Rightarrow>
          if \<not> list_ex (\<lambda>s. token s = the body) (refreshTokens u)
          then (reply 401 ''error'' ''Invalid refresh token'', db)
          else (\<lparr>code = 200, status = ''success'', message = ''Token refreshed successfully'',
                 data = AccessToken (generateAccessToken E now
                   \<lparr>userId = uid u, claimEmail = email u, claimRole = role u\<rparr>)\<rparr>, db))"
  by (simp add: refreshToken_def refreshToken_try_def User_findById_if split: option.splits)

lemma logout_absent:
  "\<not> truthy_token body \<Longrightarrow>
   logout db body = (reply 400 ''error'' ''Refresh token is required'', db)"
  by (simp add: logout_def logout_try_def)

lemma logout_undecodable:
  "truthy_token body \<Longrightarrow> getTokenPayload (the body) = None \<Longrightarrow>
   logout db body = (reply 400 ''error'' ''Invalid refresh token'', db)"
  by (simp add: logout_def logout_try_def)

text \<open>
  A well-formed token whose \<open>userId\<close> claim does not cast: the lookup raises and the
  catch-all answers 500.
\<close>

lemma logout_uncastable:
  "truthy_token body \<Longrightarrow> getTokenPayload (the body) = Some p \<Longrightarrow> \<not> isObjectId (userId p) \<Longrightarrow>
   logout db body = (reply 500 ''error'' ''Internal server error during logout'', db)"
  by (simp add: logout_def logout_try_def User_findById_if)

lemma scenario_logout_uncastable:
  "logout [alice] (Some stray_refresh) =
     (reply 500 ''error'' ''Internal server error during logout'', [alice])"
  by (simp add: logout_def logout_try_def getTokenPayload_def stray_refresh_def
      stray_claims_def)

lemma logout_castable:
  "truthy_token body \<Longrightarrow> getTokenPayload (the body) = Some p \<Longrightarrow> isObjectId (userId p) \<Longrightarrow>
   logout db body =
     (reply 200 ''success'' ''Logout successful'',
      case findById db (userId p) of
        Some u \<Rightarrow> save (removeRefreshToken (the body) u) db
      | None \<Rightarrow> db)"
  by (simp add: logout_def logout_try_def User_findById_if split: option.splits)

lemma logout_again: "logout (snd (logout db body)) body = logout db body"
proof (cases "truthy_token body")
  case False
  then show ?thesis by (simp add: logout_absent)
next
  case True
  show ?thesis
  proof (cases "getTokenPayload (the body)")
    case None
    with True show ?thesis by (simp add: logout_undecodable)
  next
    case (Some p)
    note payload = this
    show ?thesis
    proof (cases "isObjectId (userId p)")
      case False
      with True payload show ?thesis by (simp add: logout_uncastable)
    next
      case castable: True
      show ?thesis
      proof (cases "findById db (userId p)")
        case None
        with True payload castable show ?thesis by (simp add: logout_castable)
      next
        case (Some u)
        from Some have "uid u = userId p" by (simp add: findById_Some)
        then have f: "findById (save (removeRefreshToken (the body) u) db) (userId p)
                      = Some (removeRefreshToken (the body) u)"
          using findById_save_same [of "removeRefreshToken (the body) u" db]
          by (simp add: uid_removeRefreshToken)
        have s: "save (removeRefreshToken (the body) u)
                   (save (removeRefreshToken (the body) u) db)
                 = save (removeRefreshToken (the body) u) db"
          using f by (rule save_found)
        from True payload castable Some f s show ?thesis
          by (simp add: logout_castable removeRefreshToken_idem)
      qed
    qed
  qed
qed

lemma logout_ok_castable:
  assumes "code (fst (logout db body)) = 200"
  shows "\<exists>p. truthy_token body \<and> getTokenPayload (the body) = Some p \<and> isObjectId (userId p)"
proof -
  from assms have tr: "truthy_token body"
    by (cases "truthy_token body") (simp_all add: logout_absent reply_def)
  with assms obtain p where p: "getTokenPayload (the body) = Some p"
    by (cases "getTokenPayload (the body)") (simp_all add: logout_undecodable reply_def)
  with assms tr have "isObjectId (userId p)"
    by (cases "isObjectId (userId p)") (simp_all add: logout_uncastable reply_def)
  with tr p show ?thesis by blast
qed

lemma logout_then_refresh:
  assumes a: "logout db (Some t) = (r, db')" "code r = 200"
  shows "code (fst (refreshToken E now' db' (Some t))) = 401
      \<and> (\<forall>decoded. verifyRefreshToken E now' t = Inr decoded \<longrightarrow>
            refreshToken E now' db' (Some t) =
              (reply 401 ''error'' ''Invalid refresh token'', db'))"
proof -
  from a have "code (fst (logout db (Some t))) = 200" by simp
  from logout_ok_castable [OF this] obtain c where
    tr: "truthy_token (Some t)" and p: "getTokenPayload t = Some c"
    and ok: "isObjectId (userId c)"
    by auto
  from p obtain k where shape: "t = Jwt k c"
    by (cases t) (simp_all add: getTokenPayload_def)
  have lookup: "findById db' (userId c) = None \<or>
      (\<exists>u. findById db' (userId c) = Some u
         \<and> \<not> list_ex (\<lambda>s. token s = t) (refreshTokens u))"
  proof (cases "findById db (userId c)")
    case None
    with a tr p ok have "db' = db" using logout_castable [of "Some t" c db] by simp
    with None show ?thesis by simp
  next
    case (Some u)
    with a tr p ok have d: "db' = save (removeRefreshToken t u) db"
      using logout_castable [of "Some t" c db] by simp
    from Some have "uid u = userId c" by (simp add: findById_Some)
    then have "findById db' (userId c) = Some (removeRefreshToken t u)"
      using d findById_save_same [of "removeRefreshToken t u" db]
      by (simp add: uid_removeRefreshToken)
    then show ?thesis by (simp add: not_member_removeRefreshToken)
  qed
  show ?thesis
  proof (cases "verifyRefreshToken E now' t")
    case (Inl e)
    with tr show ?thesis
      using refreshToken_unverified [of "Some t" E now' e db'] by (simp add: reply_def)
  next
    case (Inr d)
    with shape have "d = c" by (simp add: verifyRefreshToken_Inr)
    with Inr tr ok lookup show ?thesis
      using refreshToken_castable [of "Some t" E now' c db'] by (auto simp: reply_def)
  qed
qed

lemma refresh_ok_member:
  assumes s: "code (fst (refreshToken E now db body)) = 200"
  shows "\<exists>t' decoded u. body = Some t' \<and> verifyRefreshToken E now t' = Inr decoded
           \<and> findById db (userId decoded) = Some u
           \<and> t' \<in> set (map token (refreshTokens u))"
proof -
  from s have tr: "truthy_token body"
    by (auto simp: refreshToken_def refreshToken_try_def reply_def split: if_splits)
  then obtain t' where b: "body = Some t'" by (cases body) auto
  from s tr b obtain decoded where v: "verifyRefreshToken E now t' = Inr decoded"
    by (cases "verifyRefreshToken E now t'") (auto simp: refreshToken_unverified reply_def)
  from s tr b v have ok: "isObjectId (userId decoded)"
    by (cases "isObjectId (userId decoded)") (auto simp: refreshToken_uncastable reply_def)
  from s tr b v ok obtain u where f: "findById db (userId decoded) = Some u"
    by (cases "findById db (userId decoded)") (auto simp: refreshToken_castable reply_def)
  from s tr b v ok f have "list_ex (\<lambda>s. token s = t') (refreshTokens u)"
    by (auto simp: refreshToken_castable reply_def split: if_splits)
  then have "t' \<in> set (map token (refreshTokens u))"
    by (auto simp: list_ex_iff)
  with b v f show ?thesis by blast
qed

lemma scenario_logout:
  "logout [alice] (Some alice_refresh) =
     (reply 200 ''success'' ''Logout successful'', [alice\<lparr>refreshTokens := []\<rparr>])"
  by (simp add: logout_def logout_try_def getTokenPayload_def scenario_defs findById_def
      removeRefreshToken_def)

lemma scenario_verify: "verifyRefreshToken env0 2000 alice_refresh = Inr alice_claims"
  by (simp add: verifyRefreshToken_def scenario_defs)

lemma scenario_refresh_ok:
  "code (fst (refreshToken env0 2000 [alice] (Some alice_refresh))) = 200"
  by (simp add: refreshToken_def refreshToken_try_def verifyRefreshToken_def scenario_defs
      findById_def)

text \<open>
  C1. Once \<open>logout\<close> of a refresh token has answered 200, a \<open>refreshToken\<close> request with the
  same token on the resulting collection answers 401, at every later time and under every
  environment; when the token still verifies (signature and expiry), the answer is the
  "Invalid refresh token" rejection of the membership test. Conversely, a refresh that
  answers 200 presented a token that verifies and is among the Session Records of the
  user its claims name.
\<close>

theorem refresh_after_logout_rejected:
  "(logout db (Some t) = (r, db') \<and> code r = 200 \<longrightarrow>
      code (fst (refreshToken E now' db' (Some t))) = 401
      \<and> (\<forall>decoded. verifyRefreshToken E now' t = Inr decoded \<longrightarrow>
            refreshToken E now' db' (Some t) =
              (reply 401 ''error'' ''Invalid refresh token'', db')))
   \<and> (code (fst (refreshToken E now dbx body)) = 200 \<longrightarrow>
        (\<exists>t' decoded u. body = Some t' \<and> verifyRefreshToken E now t' = Inr decoded
           \<and> findById dbx (userId decoded) = Some u
           \<and> t' \<in> set (map token (refreshTokens u))))"
  using logout_then_refresh [of db t r db' E now'] refresh_ok_member [of E now dbx body]
  by blast

theorem refresh_after_logout_rejected_witness:
  "logout [alice] (Some alice_refresh) =
     (reply 200 ''success'' ''Logout successful'', [alice\<lparr>refreshTokens := []\<rparr>])
   \<and> code (reply 200 ''success'' ''Logout successful'') = 200
   \<and> verifyRefreshToken env0 2000 alice_refresh = Inr alice_claims
   \<and> refreshToken env0 2000 [alice\<lparr>refreshTokens := []\<rparr>] (Some alice_refresh) =
       (reply 401 ''error'' ''Invalid refresh token'', [alice\<lparr>refreshTokens := []\<rparr>])
   \<and> code (fst (refreshToken env0 2000 [alice] (Some alice_refresh))) = 200
   \<and> (\<exists>t' decoded u. Some alice_refresh = Some t'
         \<and> verifyRefreshToken env0 2000 t' = Inr decoded
         \<and> findById [alice] (userId decoded) = Some u
         \<and> t' \<in> set (map token (refreshTokens u)))"
  using refresh_after_logout_rejected
    [where db = "[alice]" and t = alice_refresh
       and r = "reply 200 ''success'' ''Logout successful''"
       and db' = "[alice\<lparr>refreshTokens := []\<rparr>]" and E = env0 and now' = 2000
       and now = 2000 and dbx = "[alice]" and body = "Some alice_refresh"]
    scenario_logout scenario_verify scenario_refresh_ok
  by (simp add: reply_def)

section \<open>Token verification\<close>

text \<open>
  C2, as the code has it. \<open>verifyAccessToken\<close> raises the one error
  \<open>Error('Invalid access token')\<close> both when the signature was made with another secret
  and when the expiry has been reached, and \<open>verifyRefreshToken\<close> raises the one error
  \<open>Error('Invalid refresh token')\<close> in both cases; the cause of the failure is not part of
  what the caller receives. A token signed with the right secret and not yet expired
  verifies to its claims.
\<close>

theorem verify_failures_collapse:
  "(k \<noteq> JWT_SECRET E \<longrightarrow>
      verifyAccessToken E now (Jwt k c) = Inl (JsError ''Error'' ''Invalid access token''))
   \<and> (exp c \<le> now \<longrightarrow>
      verifyAccessToken E now (Jwt k c) = Inl (JsError ''Error'' ''Invalid access token''))
   \<and> (k \<noteq> JWT_REFRESH_SECRET E \<longrightarrow>
      verifyRefreshToken E now (Jwt k c) = Inl (JsError ''Error'' ''Invalid refresh token''))
   \<and> (exp c \<le> now \<longrightarrow>
      verifyRefreshToken E now (Jwt k c) = Inl (JsError ''Error'' ''Invalid refresh token''))
   \<and> (k = JWT_SECRET E \<and> now < exp c \<longrightarrow> verifyAccessToken E now (Jwt k c) = Inr c)
   \<and> (k = JWT_REFRESH_SECRET E \<and> now < exp c \<longrightarrow>
        verifyRefreshToken E now (Jwt k c) = Inr c)"
  by (simp add: verifyAccessToken_def verifyRefreshToken_def)

theorem verify_failures_collapse_witness:
  "''guessed-secret'' \<noteq> JWT_SECRET env0
   \<and> verifyAccessToken env0 2000 forged_access = Inl (JsError ''Error'' ''Invalid access token'')
   \<and> exp access_claims \<le> 3000
   \<and> verifyAccessToken env0 3000 stale_access = Inl (JsError ''Error'' ''Invalid access token'')
   \<and> ''access-secret'' \<noteq> JWT_REFRESH_SECRET env0
   \<and> verifyRefreshToken env0 2000 stale_access = Inl (JsError ''Error'' ''Invalid refresh token'')
   \<and> exp alice_claims \<le> 700000
   \<and> verifyRefreshToken env0 700000 alice_refresh
       = Inl (JsError ''Error'' ''Invalid refresh token'')
   \<and> verifyAccessToken env0 2000 stale_access = Inr access_claims
   \<and> verifyRefreshToken env0 2000 alice_refresh = Inr alice_claims"
  using
    verify_failures_collapse [where k = "''guessed-secret''" and E = env0 and now = 2000
      and c = access_claims]
    verify_failures_collapse [where k = "''access-secret''" and E = env0 and now = 3000
      and c = access_claims]
    verify_failures_collapse [where k = "''access-secret''" and E = env0 and now = 2000
      and c = access_claims]
    verify_failures_collapse [where k = "''refresh-secret''" and E = env0 and now = 700000
      and c = alice_claims]
    verify_failures_collapse [where k = "''refresh-secret''" and E = env0 and now = 2000
      and c = alice_claims]
  by (simp add: forged_access_def stale_access_def access_claims_def env0_def
      alice_refresh_def alice_claims_def)

text \<open>
  The library tells a bad signature from an expired token; the service's verifier hands
  the caller the same error value for both.
\<close>

theorem verify_failures_distinct_counterexample:
  "jwt_verify forged_access (JWT_SECRET env0) 2000 =
     Inl (JsError ''JsonWebTokenError'' ''invalid signature'')
   \<and> jwt_verify stale_access (JWT_SECRET env0) 3000 =
     Inl (JsError ''TokenExpiredError'' ''jwt expired'')
   \<and> verifyAccessToken env0 2000 forged_access = Inl (JsError ''Error'' ''Invalid access token'')
   \<and> verifyAccessToken env0 3000 stale_access = Inl (JsError ''Error'' ''Invalid access token'')
   \<and> verifyAccessToken env0 2000 forged_access = verifyAccessToken env0 3000 stale_access"
  by (simp add: verifyAccessToken_def forged_access_def stale_access_def access_claims_def
      env0_def)

section \<open>Logout\<close>

text \<open>
  C3, as the code has it. A logout request whose refresh token is a well-formed token
  naming a well-formed user id (an ObjectId) answers 200 "Logout successful", whatever
  the token's signature and expiry, whether or not the user it names exists and whether
  or not a Session Record was removed. A missing or empty token answers 400 "Refresh token
  is required", and a token that is present but does not decode answers 400 "Invalid
  refresh token"; in both cases the collection is left as it was.
\<close>

theorem logout_status:
  "(isObjectId (userId c) \<longrightarrow>
      logout db (Some (Jwt k c)) =
        (reply 200 ''success'' ''Logout successful'',
         case findById db (userId c) of
           Some u \<Rightarrow> save (removeRefreshToken (Jwt k c) u) db
         | None \<Rightarrow> db))
   \<and> (\<not> truthy_token body \<longrightarrow>
        logout db body = (reply 400 ''error'' ''Refresh token is required'', db))
   \<and> (truthy_token body \<and> getTokenPayload (the body) = None \<longrightarrow>
        logout db body = (reply 400 ''error'' ''Invalid refresh token'', db))"
  using logout_castable [of "Some (Jwt k c)" c db]
  by (auto simp: logout_absent logout_undecodable getTokenPayload_def split: option.splits)

theorem logout_status_witness:
  "isObjectId (userId unknown_claims)
   \<and> findById [alice] (userId unknown_claims) = None
   \<and> logout [alice] (Some unknown_refresh) =
        (reply 200 ''success'' ''Logout successful'', [alice])
   \<and> isObjectId (userId alice_claims)
   \<and> logout [alice] (Some alice_refresh) =
        (reply 200 ''success'' ''Logout successful'', [alice\<lparr>refreshTokens := []\<rparr>])
   \<and> \<not> truthy_token (Some (Opaque ''''))
   \<and> logout [alice] (Some (Opaque '''')) =
        (reply 400 ''error'' ''Refresh token is required'', [alice])
   \<and> \<not> truthy_token None
   \<and> logout [alice] None = (reply 400 ''error'' ''Refresh token is required'', [alice])
   \<and> truthy_token (Some (Opaque ''not-a-token''))
   \<and> getTokenPayload (the (Some (Opaque ''not-a-token''))) = None
   \<and> logout [alice] (Some (Opaque ''not-a-token'')) =
        (reply 400 ''error'' ''Invalid refresh token'', [alice])"
  using
    logout_status [where db = "[alice]" and k = "''guessed-secret''" and c = unknown_claims
      and body = "Some (Opaque '''')"]
    logout_status [where db = "[alice]" and k = "''refresh-secret''" and c = alice_claims
      and body = None]
    logout_status [where db = "[alice]" and k = "''guessed-secret''" and c = unknown_claims
      and body = "Some (Opaque ''not-a-token'')"]
  by (simp add: unknown_refresh_def unknown_claims_def alice_refresh_def alice_claims_def
      getTokenPayload_def findById_def alice_def removeRefreshToken_def)

text \<open>A token that is present in the body but is not a well-formed token: 400, not 200.\<close>

theorem logout_undecodable_counterexample:
  "truthy_token (Some (Opaque ''not-a-token''))
   \<and> logout [alice] (Some (Opaque ''not-a-token'')) =
       (reply 400 ''error'' ''Invalid refresh token'', [alice])
   \<and> code (fst (logout [alice] (Some (Opaque ''not-a-token'')))) = 400"
  by (simp add: logout_def logout_try_def getTokenPayload_def reply_def)

section \<open>Login\<close>

text \<open>
  C4, as the code has it. A login with an email no user has and a login with the email
  of an existing, active user and a password that fails verification give the same
  result: the same answer (401, "Invalid email or password") and the same, unchanged
  collection.
\<close>

theorem login_failures_indistinguishable:
  assumes "loginErrors req1 = []" and "loginErrors req2 = []"
    and "findOneByEmail db (loginEmail req1) = None"
    and "findOneByEmail db (loginEmail req2) = Some u"
    and "isActive u"
    and "\<not> comparePassword H u (loginPassword req2)"
  shows "login E H now db req1 = (reply 401 ''error'' ''Invalid email or password'', db)
       \<and> login E H now db req2 = (reply 401 ''error'' ''Invalid email or password'', db)
       \<and> login E H now db req1 = login E H now db req2"
  using assms by (simp add: login_def)

theorem login_failures_indistinguishable_witness:
  "findOneByEmail [alice, bob] ''nobody@x.com'' = None
   \<and> findOneByEmail [alice, bob] ''a@x.com'' = Some alice
   \<and> isActive alice
   \<and> \<not> comparePassword hasher0 alice ''wrong''
   \<and> login env0 hasher0 2000 [alice, bob]
        \<lparr>loginErrors = [], loginEmail = ''nobody@x.com'', loginPassword = ''Passw0rd''\<rparr> =
       (reply 401 ''error'' ''Invalid email or password'', [alice, bob])
   \<and> login env0 hasher0 2000 [alice, bob]
        \<lparr>loginErrors = [], loginEmail = ''a@x.com'', loginPassword = ''wrong''\<rparr> =
       (reply 401 ''error'' ''Invalid email or password'', [alice, bob])"
proof -
  have 1: "findOneByEmail [alice, bob] ''nobody@x.com'' = None"
    by (simp add: findOneByEmail_def alice_def bob_def)
  have 2: "findOneByEmail [alice, bob] ''a@x.com'' = Some alice"
    by (simp add: findOneByEmail_def alice_def bob_def)
  have 3: "isActive alice" by (simp add: alice_def)
  have 4: "\<not> comparePassword hasher0 alice ''wrong''"
    by (simp add: comparePassword_def hasher0_def alice_def)
  show ?thesis
    using 1 2 3 4
      login_failures_indistinguishable
        [where ?req1.0 = "\<lparr>loginErrors = [], loginEmail = ''nobody@x.com'',
                            loginPassword = ''Passw0rd''\<rparr>"
           and ?req2.0 = "\<lparr>loginErrors = [], loginEmail = ''a@x.com'',
                            loginPassword = ''wrong''\<rparr>"
           and db = "[alice, bob]" and u = alice and H = hasher0 and E = env0 and now = 2000]
    by simp
qed

text \<open>
  Bob exists and is deactivated: a wrong password for his email is answered with the
  deactivation message, an unknown email with the credentials message.
\<close>

theorem login_enumeration_counterexample:
  "findOneByEmail [alice, bob] ''nobody@x.com'' = None
   \<and> findOneByEmail [alice, bob] ''b@x.com'' = Some bob
   \<and> \<not> comparePassword hasher0 bob ''wrong''
   \<and> login env0 hasher0 2000 [alice, bob]
        \<lparr>loginErrors = [], loginEmail = ''nobody@x.com'', loginPassword = ''wrong''\<rparr> =
       (reply 401 ''error'' ''Invalid email or password'', [alice, bob])
   \<and> login env0 hasher0 2000 [alice, bob]
        \<lparr>loginErrors = [], loginEmail = ''b@x.com'', loginPassword = ''wrong''\<rparr> =
       (reply 401 ''error'' ''Account is deactivated. Please contact support.'', [alice, bob])
   \<and> fst (login env0 hasher0 2000 [alice, bob]
        \<lparr>loginErrors = [], loginEmail = ''nobody@x.com'', loginPassword = ''wrong''\<rparr>) \<noteq>
     fst (login env0 hasher0 2000 [alice, bob]
        \<lparr>loginErrors = [], loginEmail = ''b@x.com'', loginPassword = ''wrong''\<rparr>)"
  by (simp add: login_def findOneByEmail_def comparePassword_def hasher0_def alice_def bob_def
      reply_def)

section \<open>Refresh\<close>

text \<open>
  C5. A \<open>refreshToken\<close> request that answers 200 leaves the collection, and with it every
  Session Record, exactly as it was; its answer carries one new access token, signed for
  the user the refresh token names, and no refresh token. The same refresh token, on the
  collection the call leaves behind, is answered 200 again at every time before the
  token's embedded expiry, and again changes nothing.
\<close>

theorem refresh_no_rotation:
  assumes "refreshToken E now db body = (r, db')" and "code r = 200"
  shows "db' = db
       \<and> (\<exists>t d u. body = Some t \<and> verifyRefreshToken E now t = Inr d
             \<and> findById db (userId d) = Some u
             \<and> r = \<lparr>code = 200, status = ''success'',
                    message = ''Token refreshed successfully'',
                    data = AccessToken (generateAccessToken E now
                      \<lparr>userId = uid u, claimEmail = email u, claimRole = role u\<rparr>)\<rparr>)
       \<and> (\<forall>now' c. jwt_decode (the body) = Some c \<and> now' < exp c \<longrightarrow>
             code (fst (refreshToken E now' db' body)) = 200
             \<and> snd (refreshToken E now' db' body) = db)"
proof -
  from assms have ok: "code (fst (refreshToken E now db body)) = 200" by simp
  from assms(1) have frame: "db' = db"
    using refreshToken_frame [of E now db body] by simp
  from refresh_ok_member [OF ok] obtain t d u where
    b: "body = Some t" and v: "verifyRefreshToken E now t = Inr d"
    and f: "findById db (userId d) = Some u" and m: "t \<in> set (map token (refreshTokens u))"
    by blast
  from m have ex: "list_ex (\<lambda>s. token s = t) (refreshTokens u)"
    by (auto simp: list_ex_iff)
  from v have shape: "t = Jwt (JWT_REFRESH_SECRET E) d"
    by (simp add: verifyRefreshToken_Inr)
  then have tr: "truthy_token (Some t)" by simp
  have cast: "isObjectId (userId d)"
  proof (rule ccontr)
    assume "\<not> isObjectId (userId d)"
    with ok b tr v show False
      using refreshToken_uncastable [of body E now d db] by (simp add: reply_def)
  qed
  from assms(1) b tr v f ex cast have r:
    "r = \<lparr>code = 200, status = ''success'', message = ''Token refreshed successfully'',
          data = AccessToken (generateAccessToken E now
            \<lparr>userId = uid u, claimEmail = email u, claimRole = role u\<rparr>)\<rparr>"
    using refreshToken_castable [of body E now d db] by simp
  have later: "code (fst (refreshToken E now' db' body)) = 200
               \<and> snd (refreshToken E now' db' body) = db"
    if "jwt_decode (the body) = Some c \<and> now' < exp c" for now' c
  proof -
    from that b shape have "c = d" and "now' < exp d" by simp_all
    with shape have "verifyRefreshToken E now' t = Inr d"
      by (simp add: verifyRefreshToken_Inr)
    with b tr f ex frame cast show ?thesis
      using refreshToken_castable [of body E now' d db] by simp
  qed
  from frame b v f r later show ?thesis by blast
qed

theorem refresh_no_rotation_witness:
  "refreshToken env0 2000 [alice] (Some alice_refresh) =
     (\<lparr>code = 200, status = ''success'', message = ''Token refreshed successfully'',
       data = AccessToken (generateAccessToken env0 2000 alice_payload)\<rparr>, [alice])
   \<and> generateAccessToken env0 2000 alice_payload = Jwt ''access-secret''
        \<lparr>userId = ObjectId 1, claimEmail = ''a@x.com'', claimRole = ''applicant'', iat = 2000,
         exp = 3800\<rparr>
   \<and> jwt_decode alice_refresh = Some alice_claims
   \<and> (605799::nat) < exp alice_claims
   \<and> code (fst (refreshToken env0 605799 [alice] (Some alice_refresh))) = 200
   \<and> snd (refreshToken env0 605799 [alice] (Some alice_refresh)) = [alice]"
proof -
  have run: "refreshToken env0 2000 [alice] (Some alice_refresh) =
     (\<lparr>code = 200, status = ''success'', message = ''Token refreshed successfully'',
       data = AccessToken (generateAccessToken env0 2000 alice_payload)\<rparr>, [alice])"
    by (simp add: refreshToken_def refreshToken_try_def verifyRefreshToken_def findById_def
        scenario_defs alice_payload_def)
  have tok: "generateAccessToken env0 2000 alice_payload = Jwt ''access-secret''
        \<lparr>userId = ObjectId 1, claimEmail = ''a@x.com'', claimRole = ''applicant'', iat = 2000,
         exp = 3800\<rparr>"
    by (simp add: generateAccessToken_def jwt_sign_def accessExpiresIn_def env0_def
        alice_payload_def)
  have dec: "jwt_decode alice_refresh = Some alice_claims \<and> (605799::nat) < exp alice_claims"
    by (simp add: alice_refresh_def alice_claims_def)
  from refresh_no_rotation [OF run] dec
  have "code (fst (refreshToken env0 605799 [alice] (Some alice_refresh))) = 200
        \<and> snd (refreshToken env0 605799 [alice] (Some alice_refresh)) = [alice]"
    by simp
  with run tok dec show ?thesis by simp
qed

section \<open>Repeated logout\<close>

lemma logout_twice:
  assumes "getTokenPayload t = Some c" and "isObjectId (userId c)"
  shows "fst (logout db (Some t)) = reply 200 ''success'' ''Logout successful''
       \<and> fst (logout (snd (logout db (Some t))) (Some t)) =
           reply 200 ''success'' ''Logout successful''
       \<and> snd (logout (snd (logout db (Some t))) (Some t)) = snd (logout db (Some t))"
proof -
  from assms(1) have tr: "truthy_token (Some t)"
    by (cases t) (simp_all add: getTokenPayload_def)
  with assms have one: "fst (logout db (Some t)) = reply 200 ''success'' ''Logout successful''"
    using logout_castable [of "Some t" c db] by simp
  with logout_again [of db "Some t"] show ?thesis by simp
qed

lemma getTokenPayload_generateRefreshToken:
  "\<exists>c. getTokenPayload (generateRefreshToken E now p) = Some c \<and> userId c = userId p"
  by (simp add: getTokenPayload_def generateRefreshToken_def jwt_sign_def)

text \<open>
  C6. A refresh token is a token the service issued: \<open>generateRefreshToken\<close> applied to a
  payload naming a user's ObjectId. For every such token, and more generally for every
  well-formed token whose \<open>userId\<close> claim is an ObjectId (whatever its signature and
  expiry), \<open>logout\<close> answers 200 "Logout successful", and a second \<open>logout\<close> of the same
  token on the collection the first one left answers 200 again and leaves that collection
  unchanged. The same holds for any request whose first call answered 200. Repeating any
  logout request, whatever its answer, gives the first call's answer and changes nothing
  more.
\<close>

theorem logout_idempotent:
  "(getTokenPayload t = Some c \<and> isObjectId (userId c) \<longrightarrow>
      fst (logout db (Some t)) = reply 200 ''success'' ''Logout successful''
      \<and> fst (logout (snd (logout db (Some t))) (Some t)) =
          reply 200 ''success'' ''Logout successful''
      \<and> snd (logout (snd (logout db (Some t))) (Some t)) = snd (logout db (Some t)))
   \<and> (isObjectId (userId p) \<longrightarrow>
      fst (logout db (Some (generateRefreshToken E now p))) =
        reply 200 ''success'' ''Logout successful''
      \<and> fst (logout (snd (logout db (Some (generateRefreshToken E now p))))
               (Some (generateRefreshToken E now p))) =
          reply 200 ''success'' ''Logout successful''
      \<and> snd (logout (snd (logout db (Some (generateRefreshToken E now p))))
               (Some (generateRefreshToken E now p))) =
          snd (logout db (Some (generateRefreshToken E now p))))
   \<and> (code (fst (logout db body)) = 200 \<longrightarrow>
      logout (snd (logout db body)) body =
        (reply 200 ''success'' ''Logout successful'', snd (logout db body)))
   \<and> logout (snd (logout db body)) body = logout db body"
proof -
  have first: "fst (logout db (Some t)) = reply 200 ''success'' ''Logout successful''
      \<and> fst (logout (snd (logout db (Some t))) (Some t)) =
          reply 200 ''success'' ''Logout successful''
      \<and> snd (logout (snd (logout db (Some t))) (Some t)) = snd (logout db (Some t))"
    if "getTokenPayload t = Some c \<and> isObjectId (userId c)"
    using that logout_twice [of t c db] by simp
  have issued: "fst (logout db (Some (generateRefreshToken E now p))) =
        reply 200 ''success'' ''Logout successful''
      \<and> fst (logout (snd (logout db (Some (generateRefreshToken E now p))))
               (Some (generateRefreshToken E now p))) =
          reply 200 ''success'' ''Logout successful''
      \<and> snd (logout (snd (logout db (Some (generateRefreshToken E now p))))
               (Some (generateRefreshToken E now p))) =
          snd (logout db (Some (generateRefreshToken E now p)))"
    if ok: "isObjectId (userId p)"
  proof -
    from getTokenPayload_generateRefreshToken [of E now p] obtain q where
      q: "getTokenPayload (generateRefreshToken E now p) = Some q" and "userId q = userId p"
      by blast
    with ok have "isObjectId (userId q)" by simp
    from logout_twice [OF q this, of db] show ?thesis .
  qed
  have answered: "logout (snd (logout db body)) body =
        (reply 200 ''success'' ''Logout successful'', snd (logout db body))"
    if ok: "code (fst (logout db body)) = 200"
  proof -
    from logout_ok_castable [OF ok] obtain q where
      "truthy_token body" and "getTokenPayload (the body) = Some q"
      and "isObjectId (userId q)"
      by blast
    then have "fst (logout db body) = reply 200 ''success'' ''Logout successful''"
      using logout_castable [of body q db] by simp
    with logout_again [of db body] show ?thesis by (simp add: prod_eq_iff)
  qed
  from first issued answered logout_again [of db body] show ?thesis by blast
qed

theorem logout_idempotent_witness:
  "getTokenPayload alice_refresh = Some alice_claims
   \<and> isObjectId (userId alice_claims)
   \<and> isObjectId (userId alice_payload)
   \<and> generateRefreshToken env0 1000 alice_payload = alice_refresh
   \<and> logout [alice] (Some alice_refresh) =
       (reply 200 ''success'' ''Logout successful'', [alice\<lparr>refreshTokens := []\<rparr>])
   \<and> code (fst (logout [alice] (Some alice_refresh))) = 200
   \<and> logout [alice\<lparr>refreshTokens := []\<rparr>] (Some alice_refresh) =
       (reply 200 ''success'' ''Logout successful'', [alice\<lparr>refreshTokens := []\<rparr>])
   \<and> [alice\<lparr>refreshTokens := []\<rparr>] \<noteq> [alice]"
proof -
  have g: "generateRefreshToken env0 1000 alice_payload = alice_refresh"
    by (simp add: generateRefreshToken_def jwt_sign_def refreshExpiresIn_def env0_def
        alice_payload_def alice_refresh_def alice_claims_def)
  have h: "getTokenPayload alice_refresh = Some alice_claims"
    "isObjectId (userId alice_claims)" "isObjectId (userId alice_payload)"
    by (simp_all add: getTokenPayload_def alice_refresh_def alice_claims_def alice_payload_def)
  have n: "[alice\<lparr>refreshTokens := []\<rparr>] \<noteq> [alice]" by (simp add: alice_def)
  from logout_idempotent [where t = alice_refresh and c = alice_claims and db = "[alice]"
      and p = alice_payload and E = env0 and now = 1000 and body = "Some alice_refresh"]
    g h n scenario_logout
  show ?thesis by (simp add: reply_def)
qed

section \<open>Registration\<close>

lemma register_new:
  assumes "regErrors req = []" and "findOneByEmail db (regEmail req) = None"
  shows "\<exists>u accessToken refreshToken.
      register E H now db req =
        (\<lparr>code = 201, status = ''success'', message = ''User registered successfully'',
          data = Session (view u) accessToken refreshToken\<rparr>, db @ [u])
      \<and> uid u = newObjectId db \<and> findById db (uid u) = None
      \<and> email u = regEmail req
      \<and> password u = hashPassword H (regPassword req)
      \<and> isActive u
      \<and> role u = (if truthy_string (regRole req) then the (regRole req) else ''applicant'')
      \<and> generateTokens E now \<lparr>userId = uid u, claimEmail = email u, claimRole = role u\<rparr> =
          (accessToken, refreshToken)
      \<and> map token (refreshTokens u) = [refreshToken]
      \<and> findById (db @ [u]) (uid u) = Some u"
proof -
  define r where "r = (if truthy_string (regRole req) then the (regRole req) else ''applicant'')"
  define user0 where "user0 = newUser H now (newObjectId db)
       (regFirstName req) (regLastName req) (regEmail req) (regPassword req) r
       (if truthy_string (regPhone req) then regPhone req else None)
       (if regRole req = Some ''employer'' \<and> truthy_string (regCompanyName req)
        then regCompanyName req else None)"
  define payload where
    "payload = \<lparr>userId = uid user0, claimEmail = email user0, claimRole = role user0\<rparr>"
  define accessToken where "accessToken = generateAccessToken E now payload"
  define refreshToken where "refreshToken = generateRefreshToken E now payload"
  define user1 where "user1 = addRefreshToken now refreshToken user0"
  have id0: "uid user0 = newObjectId db" by (simp add: user0_def newUser_def)
  have id1: "uid user1 = uid user0" by (simp add: user1_def addRefreshToken_def)
  have fresh: "list_all (\<lambda>v. uid v \<noteq> uid user0) db"
    using fresh_all [of db] by (simp add: id0)
  have s0: "save user0 db = db @ [user0]" using fresh by (rule save_new)
  have s1: "save user1 (db @ [user0]) = db @ [user1]" using fresh id1 by (rule save_last)
  have gen: "generateTokens E now payload = (accessToken, refreshToken)"
    by (simp add: generateTokens_def accessToken_def refreshToken_def)
  have fields: "email user1 = regEmail req" "role user1 = r" "isActive user1"
    "password user1 = hashPassword H (regPassword req)"
    "map token (refreshTokens user1) = [refreshToken]"
    by (simp_all add: user1_def user0_def addRefreshToken_def newUser_def)
  have pay: "payload = \<lparr>userId = uid user1, claimEmail = email user1, claimRole = role user1\<rparr>"
    by (simp add: payload_def user1_def addRefreshToken_def)
  have none: "findById db (uid user1) = None"
    using findById_fresh [of db] by (simp add: id1 id0)
  have run: "register E H now db req =
        (\<lparr>code = 201, status = ''success'', message = ''User registered successfully'',
          data = Session (view user1) accessToken refreshToken\<rparr>, db @ [user1])"
    using assms s0 s1 gen
    by (simp add: register_def Let_def r_def [symmetric] user0_def [symmetric]
        payload_def [symmetric] user1_def [symmetric])
  from run id1 id0 none fields gen pay findById_append_new [OF none] show ?thesis
    unfolding r_def
    by (intro exI [of _ user1] exI [of _ accessToken] exI [of _ refreshToken]) simp
qed

lemma scenario_register_alice:
  "register env0 hasher0 1000 [] alice_request =
     (\<lparr>code = 201, status = ''success'', message = ''User registered successfully'',
       data = Session (view alice) (generateAccessToken env0 1000 alice_payload) alice_refresh\<rparr>,
      [alice])"
  by (simp add: register_def newUser_def newObjectId_def findOneByEmail_def generateTokens_def
      generateAccessToken_def generateRefreshToken_def jwt_sign_def accessExpiresIn_def
      refreshExpiresIn_def addRefreshToken_def view_def alice_request_def alice_payload_def
      scenario_defs)

lemma scenario_register_carol:
  "register env0 hasher0 3000 [alice] carol_request =
     (\<lparr>code = 201, status = ''success'', message = ''User registered successfully'',
       data = Session (view carol) carol_access carol_refresh\<rparr>, [alice, carol])"
  by (simp add: register_def newUser_def newObjectId_def findOneByEmail_def generateTokens_def
      generateAccessToken_def generateRefreshToken_def jwt_sign_def accessExpiresIn_def
      refreshExpiresIn_def addRefreshToken_def view_def carol_request_def carol_def
      carol_refresh_def carol_access_def scenario_defs)

text \<open>
  C7. For a request that passed validation: if a user with the given email exists,
  \<open>register\<close> answers 400 "User with this email already exists" and leaves the collection
  unchanged. Otherwise it answers 201 and appends exactly one user document, all others
  untouched: the new user has a fresh identifier, the given email, the hashed password,
  and the given role, or "applicant" when the role is missing or empty; the answer carries
  the one access and refresh token pair generated for that user, and the new user's
  Session Records hold exactly one record, for that refresh token.
\<close>

theorem register_contract:
  "(regErrors req = [] \<and> findOneByEmail db (regEmail req) = Some existing \<longrightarrow>
      register E H now db req =
        (reply 400 ''error'' ''User with this email already exists'', db))
   \<and> (regErrors req = [] \<and> findOneByEmail db (regEmail req) = None \<longrightarrow>
      (\<exists>u accessToken refreshToken.
        register E H now db req =
          (\<lparr>code = 201, status = ''success'', message = ''User registered successfully'',
            data = Session (view u) accessToken refreshToken\<rparr>, db @ [u])
        \<and> uid u = newObjectId db \<and> findById db (uid u) = None
        \<and> email u = regEmail req
        \<and> password u = hashPassword H (regPassword req)
        \<and> isActive u
        \<and> role u = (if truthy_string (regRole req) then the (regRole req) else ''applicant'')
        \<and> generateTokens E now \<lparr>userId = uid u, claimEmail = email u, claimRole = role u\<rparr> =
            (accessToken, refreshToken)
        \<and> map token (refreshTokens u) = [refreshToken]
        \<and> findById (db @ [u]) (uid u) = Some u))"
proof (rule conjI)
  show "regErrors req = [] \<and> findOneByEmail db (regEmail req) = Some existing \<longrightarrow>
      register E H now db req =
        (reply 400 ''error'' ''User with this email already exists'', db)"
    by (simp add: register_def)
next
  show "regErrors req = [] \<and> findOneByEmail db (regEmail req) = None \<longrightarrow>
      (\<exists>u accessToken refreshToken.
        register E H now db req =
          (\<lparr>code = 201, status = ''success'', message = ''User registered successfully'',
            data = Session (view u) accessToken refreshToken\<rparr>, db @ [u])
        \<and> uid u = newObjectId db \<and> findById db (uid u) = None
        \<and> email u = regEmail req
        \<and> password u = hashPassword H (regPassword req)
        \<and> isActive u
        \<and> role u = (if truthy_string (regRole req) then the (regRole req) else ''applicant'')
        \<and> generateTokens E now \<lparr>userId = uid u, claimEmail = email u, claimRole = role u\<rparr> =
            (accessToken, refreshToken)
        \<and> map token (refreshTokens u) = [refreshToken]
        \<and> findById (db @ [u]) (uid u) = Some u)"
    using register_new [of req db E H now] by blast
qed

theorem register_contract_witness:
  "findOneByEmail [alice] (regEmail alice_request) = Some alice
   \<and> register env0 hasher0 3000 [alice] alice_request =
       (reply 400 ''error'' ''User with this email already exists'', [alice])
   \<and> findOneByEmail [] (regEmail alice_request) = None
   \<and> register env0 hasher0 1000 [] alice_request =
       (\<lparr>code = 201, status = ''success'', message = ''User registered successfully'',
         data = Session (view alice) (generateAccessToken env0 1000 alice_payload) alice_refresh\<rparr>,
        [alice])
   \<and> map token (refreshTokens alice) = [alice_refresh]
   \<and> findOneByEmail [alice] (regEmail carol_request) = None
   \<and> regRole carol_request = None
   \<and> register env0 hasher0 3000 [alice] carol_request =
       (\<lparr>code = 201, status = ''success'', message = ''User registered successfully'',
         data = Session (view carol) carol_access carol_refresh\<rparr>, [alice, carol])
   \<and> role carol = ''applicant''
   \<and> map token (refreshTokens carol) = [carol_refresh]"
proof -
  have a: "findOneByEmail [alice] (regEmail alice_request) = Some alice"
    by (simp add: findOneByEmail_def alice_request_def alice_def)
  have b: "findOneByEmail [] (regEmail alice_request) = None"
    by (simp add: findOneByEmail_def)
  have c: "findOneByEmail [alice] (regEmail carol_request) = None"
    by (simp add: findOneByEmail_def carol_request_def alice_def)
  have e: "regErrors alice_request = []" "regErrors carol_request = []"
    "regRole carol_request = None"
    by (simp_all add: alice_request_def carol_request_def)
  have t: "map token (refreshTokens alice) = [alice_refresh]"
    "map token (refreshTokens carol) = [carol_refresh]" "role carol = ''applicant''"
    by (simp_all add: alice_def carol_def)
  from register_contract [where req = alice_request and db = "[alice]" and existing = alice
      and E = env0 and H = hasher0 and now = 3000] a e
  have dup: "register env0 hasher0 3000 [alice] alice_request =
       (reply 400 ''error'' ''User with this email already exists'', [alice])"
    by simp
  from a b c e t dup scenario_register_alice scenario_register_carol
    register_contract [where req = carol_request and db = "[alice]"
      and E = env0 and H = hasher0 and now = 3000]
    register_contract [where req = alice_request and db = "[]"
      and E = env0 and H = hasher0 and now = 1000]
  show ?thesis by simp
qed

section \<open>Authentication of a request\<close>

text \<open>
  C8. A request whose Authorization header carries a well-formed token with its expiry
  reached is answered by \<open>authenticateToken\<close> itself, with 401 "Invalid or expired access
  token", whatever secret signed the token: \<open>next()\<close> is not called, so any handler
  guarded by the middleware is not run and its answer is the middleware's, with the
  collection unchanged; this holds in particular for the guarded logout-all route.
\<close>

theorem expired_access_token_rejected:
  assumes "exp c \<le> now"
  shows "authenticateToken E now db (Some (Bearer (Jwt k c))) =
           Respond (reply 401 ''error'' ''Invalid or expired access token'')
       \<and> guarded (authenticateToken E now db (Some (Bearer (Jwt k c)))) handler db =
           (reply 401 ''error'' ''Invalid or expired access token'', db)
       \<and> logoutAll_route E now db (Some (Bearer (Jwt k c))) =
           (reply 401 ''error'' ''Invalid or expired access token'', db)"
proof -
  from assms have "authenticateToken_try E now db (Some (Bearer (Jwt k c))) =
      Inl (JsError ''Error'' ''Invalid access token'')"
    by (simp add: authenticateToken_try_def verifyAccessToken_expired)
  then have "authenticateToken E now db (Some (Bearer (Jwt k c))) =
           Respond (reply 401 ''error'' ''Invalid or expired access token'')"
    by (simp add: authenticateToken_def)
  then show ?thesis by (simp add: guarded_def logoutAll_route_def)
qed

theorem expired_access_token_rejected_witness:
  "exp access_claims \<le> 3000
   \<and> authenticateToken env0 3000 [alice] (Some (Bearer stale_access)) =
       Respond (reply 401 ''error'' ''Invalid or expired access token'')
   \<and> logoutAll_route env0 3000 [alice] (Some (Bearer stale_access)) =
       (reply 401 ''error'' ''Invalid or expired access token'', [alice])
   \<and> authenticateToken env0 2000 [alice] (Some (Bearer stale_access)) =
       Next (Some alice_identity)
   \<and> logoutAll_route env0 2000 [alice] (Some (Bearer stale_access)) =
       (reply 200 ''success'' ''Logged out from all devices successfully'',
        [alice\<lparr>refreshTokens := []\<rparr>])"
proof -
  have live: "authenticateToken env0 2000 [alice] (Some (Bearer stale_access)) =
       Next (Some alice_identity)"
    by (simp add: authenticateToken_def authenticateToken_try_def verifyAccessToken_def
        findById_def stale_access_def access_claims_def env0_def alice_def
        alice_identity_def)
  then have route: "logoutAll_route env0 2000 [alice] (Some (Bearer stale_access)) =
       (reply 200 ''success'' ''Logged out from all devices successfully'',
        [alice\<lparr>refreshTokens := []\<rparr>])"
    by (simp add: logoutAll_route_def guarded_def logoutAll_def logoutAll_try_def
        findById_def alice_def alice_identity_def)
  have old: "exp access_claims \<le> 3000" by (simp add: access_claims_def)
  from live route old
    expired_access_token_rejected [where now = 3000 and E = env0 and db = "[alice]"
      and k = "''access-secret''" and handler = "logoutAll [alice]" and c = access_claims]
  show ?thesis by (simp add: stale_access_def)
qed

section \<open>Role check without an identity\<close>

lemma requireRole_jobs_unauthenticated:
  "\<exists>r. requireRole_jobs allowedRoles None = Respond r \<and> code r = 403"
  by (simp add: requireRole_jobs_def reply_def)

text \<open>
  C9. With no identity attached to the request, \<open>requireRole\<close> answers 401
  "Authentication required", whatever roles it was built for, and does not pass the
  request on; an attached identity whose role is not among the allowed ones is answered
  403 "Insufficient permissions". The two cases get different status codes.
\<close>

theorem requireRole_unauthenticated_401:
  "requireRole allowedRoles None = Respond (reply 401 ''error'' ''Authentication required'')
   \<and> code (reply 401 ''error'' ''Authentication required'') = 401
   \<and> (identRole ident \<notin> set (roles_of allowedRoles) \<longrightarrow>
        requireRole allowedRoles (Some ident) =
          Respond (reply 403 ''error'' ''Insufficient permissions''))
   \<and> reply 401 ''error'' ''Authentication required'' \<noteq>
       reply 403 ''error'' ''Insufficient permissions''"
  by (simp add: requireRole_def reply_def)

theorem requireRole_unauthenticated_401_witness:
  "requireEmployer None = Respond (reply 401 ''error'' ''Authentication required'')
   \<and> requireAny None = Respond (reply 401 ''error'' ''Authentication required'')
   \<and> identRole alice_identity \<notin> set (roles_of (OneRole ''employer''))
   \<and> requireEmployer (Some alice_identity) =
       Respond (reply 403 ''error'' ''Insufficient permissions'')"
  using requireRole_unauthenticated_401 [where allowedRoles = "OneRole ''employer''"
      and ident = alice_identity]
    requireRole_unauthenticated_401 [where allowedRoles = "RoleArray [''applicant'', ''employer'']"
      and ident = alice_identity]
  by (simp add: requireEmployer_def requireAny_def alice_identity_def)

section \<open>Login to a deactivated account\<close>

text \<open>
  C10. For a login request that passed validation and whose email is that of a user
  with \<open>isActive\<close> false, \<open>login\<close> answers 401 "Account is deactivated. Please contact
  support." and leaves the collection unchanged. The answer does not depend on the
  password sent nor on the hasher: the same request with any other password, checked by
  any other hasher, has the same result, so the answer is the same when the password is
  wrong.
\<close>

theorem login_deactivated_first:
  assumes "loginErrors req = []"
    and "findOneByEmail db (loginEmail req) = Some u"
    and "\<not> isActive u"
  shows "login E H now db req =
           (reply 401 ''error'' ''Account is deactivated. Please contact support.'', db)
       \<and> login E H' now db (req\<lparr>loginPassword := pw'\<rparr>) = login E H now db req"
  using assms by (simp add: login_def)

theorem login_deactivated_first_witness:
  "findOneByEmail [alice, bob] ''b@x.com'' = Some bob
   \<and> \<not> isActive bob
   \<and> \<not> comparePassword hasher0 bob ''wrong''
   \<and> comparePassword hasher0 bob ''Secr3t''
   \<and> login env0 hasher0 2000 [alice, bob]
        \<lparr>loginErrors = [], loginEmail = ''b@x.com'', loginPassword = ''wrong''\<rparr> =
       (reply 401 ''error'' ''Account is deactivated. Please contact support.'', [alice, bob])
   \<and> login env0 hasher0 2000 [alice, bob]
        \<lparr>loginErrors = [], loginEmail = ''b@x.com'', loginPassword = ''Secr3t''\<rparr> =
       (reply 401 ''error'' ''Account is deactivated. Please contact support.'', [alice, bob])"
proof -
  have 1: "findOneByEmail [alice, bob] ''b@x.com'' = Some bob"
    by (simp add: findOneByEmail_def alice_def bob_def)
  have 2: "\<not> isActive bob" by (simp add: bob_def)
  have 3: "\<not> comparePassword hasher0 bob ''wrong'' \<and> comparePassword hasher0 bob ''Secr3t''"
    by (simp add: comparePassword_def hasher0_def bob_def)
  show ?thesis
    using 1 2 3
      login_deactivated_first
        [where req = "\<lparr>loginErrors = [], loginEmail = ''b@x.com'', loginPassword = ''wrong''\<rparr>"
           and db = "[alice, bob]" and u = bob and H = hasher0 and H' = hasher0 and E = env0
           and now = 2000 and pw' = "''Secr3t''"]
    by simp
qed

end
